theory Spec2Isabelle
  imports Main
begin

section \<open>JavaScript values used by the chain engine\<close>

text \<open>
  The engine of \<^verbatim>\<open>src/blockchain.js\<close> is embedded as HOL functions. Every method returns
  a promise; the model returns the promise's final state together with the engine state
  after the call. The readers and \<^verbatim>\<open>submitStar\<close> are modelled for one call that runs with
  no other call in between, on the chain as a list of block values. \<^verbatim>\<open>_addBlock\<close> writes
  into the object it is given and suspends before it appends, so it is modelled twice: on a
  store of block objects, in the two phases around its \<^verbatim>\<open>await\<close>, and by value for a
  newly constructed block and an uninterrupted call.

  Strings are \<^typ>\<open>string\<close> (code units below 256). A JavaScript number that the engine
  computes is an integer or \<^verbatim>\<open>NaN\<close>: \<^typ>\<open>int option\<close>, with \<^term>\<open>None\<close> for
  \<^verbatim>\<open>NaN\<close>. Clock readings are far below \<open>2^53\<close>, so the comparison against the time
  limit gives the same answer on integers as on doubles.
\<close>

datatype 'a js = Undefined | Null | Obj 'a

type_synonym number = "int option"

definition minus_number :: "number \<Rightarrow> number \<Rightarrow> number" where
  "minus_number a b =
     (case a of None \<Rightarrow> None
      | Some x \<Rightarrow> (case b of None \<Rightarrow> None | Some y \<Rightarrow> Some (x - y)))"

definition greater_number :: "number \<Rightarrow> int \<Rightarrow> bool" where
  "greater_number a k = (case a of None \<Rightarrow> False | Some x \<Rightarrow> x > k)"

subsection \<open>\<^verbatim>\<open>parseInt\<close>, \<^verbatim>\<open>toString\<close>, \<^verbatim>\<open>slice\<close>, \<^verbatim>\<open>split\<close>\<close>

definition isWhiteSpace :: "char \<Rightarrow> bool" where
  "isWhiteSpace c =
     (c = CHR 0x09 \<or> c = CHR 0x0A \<or> c = CHR 0x0B \<or> c = CHR 0x0C \<or> c = CHR 0x0D
      \<or> c = CHR 0x20 \<or> c = CHR 0xA0)"

definition digitVal :: "char \<Rightarrow> nat option" where
  "digitVal c =
     (let n = (of_char c :: nat) in
      if 48 \<le> n \<and> n \<le> 57 then Some (n - 48)
      else if 97 \<le> n \<and> n \<le> 122 then Some (n - 87)
      else if 65 \<le> n \<and> n \<le> 90 then Some (n - 55)
      else None)"

definition isRadixDigit :: "nat \<Rightarrow> char \<Rightarrow> bool" where
  "isRadixDigit R c = (case digitVal c of None \<Rightarrow> False | Some d \<Rightarrow> d < R)"

definition digitsValue :: "nat \<Rightarrow> string \<Rightarrow> nat" where
  "digitsValue R Z = foldl (\<lambda>acc c. acc * R + (case digitVal c of None \<Rightarrow> 0 | Some d \<Rightarrow> d)) 0 Z"

text \<open>
  \<^verbatim>\<open>parseInt(string)\<close> with no radix argument, after ECMAScript: leading white space is
  dropped, one sign is read, a \<^verbatim>\<open>0x\<close> prefix selects radix 16, and the longest prefix of
  digits is the value; with no digit the result is \<^verbatim>\<open>NaN\<close>.
\<close>

definition parseInt :: "string \<Rightarrow> number" where
  "parseInt inputString =
     (let S = dropWhile isWhiteSpace inputString;
          sign = (if take 1 S = ''-'' then - 1 else (1::int));
          S1 = (if take 1 S = ''+'' \<or> take 1 S = ''-'' then drop 1 S else S);
          stripPrefix = (take 2 S1 = ''0x'' \<or> take 2 S1 = ''0X'');
          R = (if stripPrefix then 16 else 10);
          S2 = (if stripPrefix then drop 2 S1 else S1);
          Z = takeWhile (isRadixDigit R) S2
      in if Z = [] then None else Some (sign * int (digitsValue R Z)))"

text \<open>\<^verbatim>\<open>parseInt(x)\<close> where \<^verbatim>\<open>x\<close> may be \<^verbatim>\<open>undefined\<close>: the argument is first turned into
  a string.\<close>

definition parseIntArg :: "string js \<Rightarrow> number" where
  "parseIntArg x =
     (case x of Undefined \<Rightarrow> parseInt ''undefined'' | Null \<Rightarrow> parseInt ''null''
      | Obj s \<Rightarrow> parseInt s)"

text \<open>\<^verbatim>\<open>n.toString()\<close> for a non-negative integer: its decimal digits.\<close>

definition digitChar :: "nat \<Rightarrow> char" where
  "digitChar d = ''0123456789'' ! d"

fun toString :: "nat \<Rightarrow> string" where
  "toString n =
     (if n < 10 then [digitChar n]
      else toString (n div 10) @ [digitChar (n mod 10)])"

declare toString.simps [simp del]

text \<open>\<^verbatim>\<open>s.slice(0, -3)\<close>: all but the last three code units.\<close>

definition slice_0_neg3 :: "string \<Rightarrow> string" where
  "slice_0_neg3 s = take (length s - 3) s"

text \<open>\<^verbatim>\<open>s.split(':')\<close>, for any one-character separator.\<close>

fun split :: "char \<Rightarrow> string \<Rightarrow> string list" where
  "split sep [] = [[]]"
| "split sep (c # cs) =
     (if c = sep then [] # split sep cs
      else (case split sep cs of [] \<Rightarrow> [[c]] | w # ws \<Rightarrow> (c # w) # ws))"

text \<open>\<^verbatim>\<open>xs[i]\<close>: \<^verbatim>\<open>undefined\<close> out of range.\<close>

definition index :: "'a list \<Rightarrow> nat \<Rightarrow> 'a js" where
  "index xs i = (if i < length xs then Obj (xs ! i) else Undefined)"

text \<open>\<^verbatim>\<open>new Date().getTime().toString().slice(0, -3)\<close>, from the clock's milliseconds.\<close>

definition timeString :: "nat \<Rightarrow> string" where
  "timeString now = slice_0_neg3 (toString now)"

text \<open>Decimal digits, the code units \<^verbatim>\<open>toString\<close> produces.\<close>

definition isDecimalDigit :: "char \<Rightarrow> bool" where
  "isDecimalDigit c = (48 \<le> (of_char c :: nat) \<and> (of_char c :: nat) \<le> 57)"

section \<open>Blocks and the external collaborators\<close>

datatype error =
    ExceedTimeLimit
  | MessageVerificationFailed
  | InvalidBlockchain
  | BlockNotFound
  | TypeError
  | VerifierError string
  | DecodeError

text \<open>A promise is resolved with a value, rejected with an error, or never settled.\<close>

datatype 'a promise = Resolved 'a | Rejected error | Pending

text \<open>
  The data of a block: \<^verbatim>\<open>{ data: 'Genesis Block' }\<close> for the genesis block and
  \<^verbatim>\<open>{ owner: address, star }\<close> for a submitted star (the star itself stays opaque).
\<close>

datatype data = GenesisBlockData | StarData string string

text \<open>\<^verbatim>\<open>data.owner\<close>: the genesis data has no such property.\<close>

fun owner :: "data \<Rightarrow> string js" where
  "owner GenesisBlockData = Undefined"
| "owner (StarData address star) = Obj address"

record block =
  hash :: "string option"
  height :: "int option"
  body :: string
  time :: "string option"
  previousBlockHash :: "string option"

text \<open>
  The libraries the engine calls are parameters: the digest \<^verbatim>\<open>SHA256(...).toString()\<close>,
  \<^verbatim>\<open>JSON.stringify\<close> on a block, \<^verbatim>\<open>bitcoinMessage.verify\<close> (which returns a boolean or
  throws, \<^term>\<open>Inl\<close> carrying what it threw), and the codec of a block's body.
\<close>

record ext =
  SHA256 :: "string \<Rightarrow> string"
  JSON_stringify :: "block \<Rightarrow> string"
  verify :: "string \<Rightarrow> string \<Rightarrow> string \<Rightarrow> string + bool"
  encode :: "data \<Rightarrow> string"
  decode :: "string \<Rightarrow> data option"

text \<open>
  Modelled from the spec: \<^verbatim>\<open>block.js\<close> is not among the sources. Construct(payload) gives
  a new, unsealed entry holding the payload (stored encoded), with height, timestamp,
  previous digest and digest unset.
\<close>

definition Block :: "ext \<Rightarrow> data \<Rightarrow> block" where
  "Block ext d =
     \<lparr>hash = None, block.height = None, body = encode ext d, time = None,
      previousBlockHash = None\<rparr>"

text \<open>
  Modelled from the spec: \<^verbatim>\<open>block.js\<close> is not among the sources. IsGenesis() is true iff
  the entry's payload equals the fixed genesis sentinel; the payload is compared as stored.
\<close>

definition isGenesisBlock :: "ext \<Rightarrow> block \<Rightarrow> bool" where
  "isGenesisBlock ext b = (body b = encode ext GenesisBlockData)"

text \<open>
  Modelled from the spec: \<^verbatim>\<open>block.js\<close> is not among the sources. Validate() recomputes
  the digest from the entry's stored fields, the digest field itself excluded, and compares
  it to the stored digest; it returns false on a mismatch and never throws.
\<close>

definition validate :: "ext \<Rightarrow> block \<Rightarrow> bool" where
  "validate ext b = (hash b = Some (SHA256 ext (JSON_stringify ext (b\<lparr>hash := None\<rparr>))))"

text \<open>
  Modelled from the spec: \<^verbatim>\<open>block.js\<close> is not among the sources. DecodePayload() reverses
  the storage encoding and fails with a DecodeError if the stored body is not valid encoded
  data. The engine calls \<^verbatim>\<open>.then\<close> on its result, so the failure is a rejected promise.
\<close>

definition getBData :: "ext \<Rightarrow> block \<Rightarrow> data promise" where
  "getBData ext b =
     (case decode ext (body b) of None \<Rightarrow> Rejected DecodeError | Some d \<Rightarrow> Resolved d)"

subsection \<open>Promise combinators\<close>

text \<open>\<^verbatim>\<open>p.then(f)\<close> for a callback that does not throw.\<close>

definition then_promise :: "'a promise \<Rightarrow> ('a \<Rightarrow> 'b) \<Rightarrow> 'b promise" where
  "then_promise p f =
     (case p of Resolved x \<Rightarrow> Resolved (f x) | Rejected e \<Rightarrow> Rejected e | Pending \<Rightarrow> Pending)"

text \<open>\<^verbatim>\<open>Promise.all\<close>: rejected once one member is, resolved once all are.\<close>

fun promise_all :: "'a promise list \<Rightarrow> 'a list promise" where
  "promise_all [] = Resolved []"
| "promise_all (p # ps) =
     (case p of
        Rejected e \<Rightarrow> Rejected e
      | Pending \<Rightarrow> (case promise_all ps of Rejected e \<Rightarrow> Rejected e | _ \<Rightarrow> Pending)
      | Resolved x \<Rightarrow>
          (case promise_all ps of
             Resolved xs \<Rightarrow> Resolved (x # xs)
           | Rejected e \<Rightarrow> Rejected e
           | Pending \<Rightarrow> Pending))"

section \<open>The chain engine\<close>

record blockchain =
  chain :: "block list"
  height :: int

definition MesgTimeLimitSec :: int where
  "MesgTimeLimitSec = 5 * 60"

text \<open>The state the constructor sets up before it calls \<^verbatim>\<open>initializeChain\<close>.\<close>

definition newBlockchain :: blockchain where
  "newBlockchain = \<lparr>chain = [], height = - 1\<rparr>"

definition getChainHeight :: "blockchain \<Rightarrow> int promise" where
  "getChainHeight self = Resolved (height self)"

subsection \<open>\<^verbatim>\<open>validateChain\<close>\<close>

text \<open>One round of the loop over \<^verbatim>\<open>i\<close>, with the error log built so far.\<close>

definition validateStep :: "ext \<Rightarrow> block list \<Rightarrow> nat list \<Rightarrow> nat \<Rightarrow> nat list" where
  "validateStep ext c errorLog i =
     (let b = c ! i;
          isValid = validate ext b
      in if \<not> isValid then errorLog @ [i]
         else
           (let nextBlockIndex = i + 1
            in if nextBlockIndex < length c then
                 (let nextBlock = c ! (i + 1);
                      previousHashOfNextBlock = previousBlockHash nextBlock
                  in if hash b \<noteq> previousHashOfNextBlock then errorLog @ [i] else errorLog)
               else errorLog))"

text \<open>The list the promise of \<^verbatim>\<open>validateChain\<close> resolves with.\<close>

definition validateChain :: "ext \<Rightarrow> blockchain \<Rightarrow> nat list" where
  "validateChain ext self = foldl (validateStep ext (chain self)) [] [0 ..< length (chain self)]"

subsection \<open>\<^verbatim>\<open>_addBlock\<close>\<close>

text \<open>
  The engine with its block objects: a store from addresses to objects, the chain as the
  list of the addresses it holds (an object can be in the chain and also be handed to
  \<^verbatim>\<open>_addBlock\<close>), and the height field.
\<close>

record objectEngine =
  heap :: "nat \<Rightarrow> block"
  chainRefs :: "nat list"
  heightField :: int

text \<open>What a reader of the chain sees: the objects the chain holds, as they are now.\<close>

definition snapshot :: "objectEngine \<Rightarrow> blockchain" where
  "snapshot s = \<lparr>chain = map (heap s) (chainRefs s), height = heightField s\<rparr>"

text \<open>An assignment to fields of the object at address \<open>a\<close>.\<close>

definition writeObject :: "objectEngine \<Rightarrow> nat \<Rightarrow> (block \<Rightarrow> block) \<Rightarrow> objectEngine" where
  "writeObject s a f = s\<lparr>heap := (heap s)(a := f (heap s a))\<rparr>"

text \<open>\<^verbatim>\<open>new BlockClass.Block(data)\<close>, the new object placed at address \<open>a\<close>.\<close>

definition construct :: "ext \<Rightarrow> objectEngine \<Rightarrow> nat \<Rightarrow> data \<Rightarrow> objectEngine" where
  "construct ext s a d = s\<lparr>heap := (heap s)(a := Block ext d)\<rparr>"

text \<open>
  The first phase of \<^verbatim>\<open>_addBlock(block)\<close>, for the block object at address \<open>a\<close> and clock
  reading \<open>now\<close> (milliseconds): the assignments to the block's time, height, previous hash
  and hash, which run before the call suspends at \<^verbatim>\<open>await self.validateChain()\<close>. Reading
  the hash of the last block of an empty chain throws. The result is what was thrown, if
  anything, and the store afterwards.
\<close>

definition addBlockStamp ::
  "ext \<Rightarrow> nat \<Rightarrow> objectEngine \<Rightarrow> nat \<Rightarrow> error option \<times> objectEngine" where
  "addBlockStamp ext now s a =
     (let s1 = writeObject s a (\<lambda>b. b\<lparr>time := Some (timeString now)\<rparr>);
          s2 = writeObject s1 a (\<lambda>b. b\<lparr>block.height := Some (int (length (chainRefs s1)))\<rparr>)
      in if \<not> isGenesisBlock ext (heap s2 a) \<and> chainRefs s2 = [] then (Some TypeError, s2)
         else
           (let s3 =
                  (if \<not> isGenesisBlock ext (heap s2 a)
                   then writeObject s2 a
                          (\<lambda>b. b\<lparr>previousBlockHash := hash (heap s2 (last (chainRefs s2)))\<rparr>)
                   else s2);
                s4 = writeObject s3 a
                       (\<lambda>b. b\<lparr>hash := Some (SHA256 ext (JSON_stringify ext b))\<rparr>)
            in (None, s4)))"

text \<open>
  The second phase, when the call goes on after the \<^verbatim>\<open>await\<close>, with the error log that
  \<^verbatim>\<open>validateChain\<close> resolved with: it decides between the rejection and the \<^verbatim>\<open>push\<close>.
  Other calls may run between the first phase, the validation and this phase. The
  validation is taken as one step; the source spreads it over one \<^verbatim>\<open>await\<close> per block.
  The engine's height is copied from the block's height, which the first phase has set
  (for a block with no height the field is left as it is).
\<close>

definition addBlockCommit ::
  "objectEngine \<Rightarrow> nat \<Rightarrow> nat list \<Rightarrow> block promise \<times> objectEngine" where
  "addBlockCommit s a errorLogs =
     (if length errorLogs > 0 then (Rejected InvalidBlockchain, s)
      else
        (Resolved (heap s a),
         s\<lparr>chainRefs := chainRefs s @ [a],
           heightField := (case block.height (heap s a) of Some h \<Rightarrow> h | None \<Rightarrow> heightField s)\<rparr>))"

text \<open>
  A call of \<^verbatim>\<open>_addBlock\<close> with no other call in between: the first phase, the validation
  of the chain as the first phase left it, and the second phase.
\<close>

definition addBlockAlone ::
  "ext \<Rightarrow> nat \<Rightarrow> objectEngine \<Rightarrow> nat \<Rightarrow> block promise \<times> objectEngine" where
  "addBlockAlone ext now s a =
     (case addBlockStamp ext now s a of
        (Some e, s') \<Rightarrow> (Rejected e, s')
      | (None, s') \<Rightarrow> addBlockCommit s' a (validateChain ext (snapshot s')))"

text \<open>
  \<^verbatim>\<open>_addBlock(block)\<close> by value: the call with no other call between its phases, on a block
  object that the chain does not hold, as both call sites in the source pass one they have
  just constructed. The result is the promise, the engine afterwards, and the caller's
  block afterwards. Lemma \<open>addBlock_addBlockAlone\<close> below proves that this is what the two
  phases compute under these two conditions.
\<close>

definition addBlock ::
  "ext \<Rightarrow> nat \<Rightarrow> blockchain \<Rightarrow> block \<Rightarrow> block promise \<times> blockchain \<times> block" where
  "addBlock ext now self block0 =
     (let block1 = block0\<lparr>time := Some (timeString now)\<rparr>;
          block2 = block1\<lparr>block.height := Some (int (length (chain self)))\<rparr>
      in if \<not> isGenesisBlock ext block2 \<and> chain self = [] then
           (Rejected TypeError, self, block2)
         else
           (let block3 =
                  (if \<not> isGenesisBlock ext block2
                   then block2\<lparr>previousBlockHash := hash (last (chain self))\<rparr>
                   else block2);
                block4 = block3\<lparr>hash := Some (SHA256 ext (JSON_stringify ext block3))\<rparr>;
                errorLogs = validateChain ext self
            in if length errorLogs > 0 then (Rejected InvalidBlockchain, self, block4)
               else
                 (Resolved block4,
                  self\<lparr>chain := chain self @ [block4],
                       height := int (length (chain self))\<rparr>,
                  block4)))"

definition initializeChain :: "ext \<Rightarrow> nat \<Rightarrow> blockchain \<Rightarrow> blockchain" where
  "initializeChain ext now self =
     (if height self = - 1
      then (case addBlock ext now self (Block ext GenesisBlockData) of (p, self', b) \<Rightarrow> self')
      else self)"

subsection \<open>The ownership challenge\<close>

definition requestMessageOwnershipVerification :: "nat \<Rightarrow> string \<Rightarrow> string promise" where
  "requestMessageOwnershipVerification now address =
     Resolved (address @ '':'' @ timeString now @ '':starRegistry'')"

text \<open>
  \<^verbatim>\<open>submitStar\<close> reads the clock once itself (\<open>now\<close>) and once more inside \<^verbatim>\<open>_addBlock\<close>
  (\<open>now'\<close>). It constructs the block it hands to \<^verbatim>\<open>_addBlock\<close>; the call is modelled
  with no other call in between.
\<close>

definition submitStar ::
  "ext \<Rightarrow> nat \<Rightarrow> nat \<Rightarrow> blockchain \<Rightarrow> string \<Rightarrow> string \<Rightarrow> string \<Rightarrow> string
    \<Rightarrow> block promise \<times> blockchain" where
  "submitStar ext now now' self address message signature star =
     (let time = parseIntArg (index (split CHR '':'' message) 1);
          currentTime = parseInt (timeString now);
          elapsedTime = minus_number currentTime time
      in if greater_number elapsedTime MesgTimeLimitSec then (Rejected ExceedTimeLimit, self)
         else
           (case verify ext message address signature of
              Inl e \<Rightarrow> (Rejected (VerifierError e), self)
            | Inr isVerified \<Rightarrow>
                if \<not> isVerified then (Rejected MessageVerificationFailed, self)
                else
                  (case addBlock ext now' self (Block ext (StarData address star)) of
                     (p, self', b) \<Rightarrow> (p, self'))))"

subsection \<open>Lookups\<close>

text \<open>\<^verbatim>\<open>Array.prototype.find\<close>: the first element that satisfies the test, or \<^verbatim>\<open>undefined\<close>.\<close>

fun find_js :: "('a \<Rightarrow> bool) \<Rightarrow> 'a list \<Rightarrow> 'a js" where
  "find_js P [] = Undefined"
| "find_js P (x # xs) = (if P x then Obj x else find_js P xs)"

definition getBlockByHash :: "blockchain \<Rightarrow> string \<Rightarrow> block js promise" where
  "getBlockByHash self h =
     (let b = find_js (\<lambda>myBlock. hash myBlock = Some h) (chain self)
      in if b \<noteq> Null then Resolved b else Rejected BlockNotFound)"

definition getBlockByHeight :: "blockchain \<Rightarrow> int \<Rightarrow> block js promise" where
  "getBlockByHeight self h =
     (case index (filter (\<lambda>p. block.height p = Some h) (chain self)) 0 of
        Obj b \<Rightarrow> Resolved (Obj b)
      | _ \<Rightarrow> Resolved Null)"

text \<open>
  \<^verbatim>\<open>getStarsByWalletAddress\<close>: the \<^verbatim>\<open>then\<close> on \<^verbatim>\<open>Promise.all\<close> has no rejection handler
  and the surrounding \<^verbatim>\<open>try\<close> only sees synchronous throws, so when a member rejects the
  returned promise is never settled.
\<close>

definition getStarsByWalletAddress :: "ext \<Rightarrow> blockchain \<Rightarrow> string \<Rightarrow> data js list promise" where
  "getStarsByWalletAddress ext self address =
     (let allPromises =
            map (\<lambda>myBlock.
                   then_promise (getBData ext myBlock)
                     (\<lambda>d. if owner d = Obj address then Obj d else Null))
                (chain self)
      in case promise_all allPromises of
           Resolved result \<Rightarrow>
             Resolved (filter (\<lambda>v. v \<noteq> Null \<and> v \<noteq> Undefined) result)
         | Rejected e \<Rightarrow> Pending
         | Pending \<Rightarrow> Pending)"

section \<open>Predicates and sample collaborators used in the statements\<close>

text \<open>
  The elapsed time \<^verbatim>\<open>submitStar\<close> computes from its clock reading and the message.
\<close>

definition elapsedTime :: "nat \<Rightarrow> string \<Rightarrow> number" where
  "elapsedTime now message =
     minus_number (parseInt (timeString now)) (parseIntArg (index (split CHR '':'' message) 1))"

text \<open>
  The block as \<^verbatim>\<open>_addBlock\<close> has written it when the chain is validated: first time,
  height and (unless it is a genesis block) the previous hash, then the hash over that.
\<close>

definition stamped :: "ext \<Rightarrow> nat \<Rightarrow> blockchain \<Rightarrow> block \<Rightarrow> block" where
  "stamped ext now self b =
     (if isGenesisBlock ext b
      then b\<lparr>time := Some (timeString now), block.height := Some (int (length (chain self)))\<rparr>
      else b\<lparr>time := Some (timeString now), block.height := Some (int (length (chain self))),
             previousBlockHash := hash (last (chain self))\<rparr>)"

definition sealed :: "ext \<Rightarrow> nat \<Rightarrow> blockchain \<Rightarrow> block \<Rightarrow> block" where
  "sealed ext now self b =
     (stamped ext now self b)
       \<lparr>hash := Some (SHA256 ext (JSON_stringify ext (stamped ext now self b)))\<rparr>"

text \<open>
  What one round of the loop of \<^verbatim>\<open>validateChain\<close> tests at index \<open>i\<close>: the block fails
  its own validation, or it has a successor whose \<^verbatim>\<open>previousBlockHash\<close> is not its hash.
\<close>

definition flagged :: "ext \<Rightarrow> block list \<Rightarrow> nat \<Rightarrow> bool" where
  "flagged ext c i =
     (if validate ext (c ! i) then i + 1 < length c \<and> hash (c ! i) \<noteq> previousBlockHash (c ! (i + 1))
      else True)"

text \<open>
  The engines that initialization followed by successful calls of \<^verbatim>\<open>_addBlock\<close> reach
  when the calls run in turn, each one finished before the next starts, and each on a
  newly constructed block; \<open>allowed\<close> says which data the appended blocks may hold.
\<close>

inductive builtInTurn :: "ext \<Rightarrow> (data \<Rightarrow> bool) \<Rightarrow> objectEngine \<Rightarrow> bool" for ext allowed where
  init:
    "chainRefs s = [] \<Longrightarrow> heightField s = - 1 \<Longrightarrow>
     builtInTurn ext allowed (snd (addBlockAlone ext now (construct ext s a GenesisBlockData) a))"
| append:
    "builtInTurn ext allowed s \<Longrightarrow> a \<notin> set (chainRefs s) \<Longrightarrow> allowed d \<Longrightarrow>
     addBlockAlone ext now (construct ext s a d) a = (Resolved b, s') \<Longrightarrow>
     builtInTurn ext allowed s'"

text \<open>
  Sample collaborators, to run the engine on concrete inputs. The digest is the identity
  (so it is injective), the serialization lists the five fields, the verifier throws on an
  empty signature and accepts exactly the signature \<^verbatim>\<open>signed\<close>, and the codec writes
  \<^verbatim>\<open>G\<close> for the genesis data and \<^verbatim>\<open>S<owner>:<star>\<close> for a star.
\<close>

definition sampleStringify :: "block \<Rightarrow> string" where
  "sampleStringify b =
     (case hash b of None \<Rightarrow> ''null'' | Some h \<Rightarrow> h) @ '','' @
     (case block.height b of None \<Rightarrow> ''null'' | Some h \<Rightarrow> toString (nat h)) @ '','' @
     body b @ '','' @
     (case time b of None \<Rightarrow> ''null'' | Some t \<Rightarrow> t) @ '','' @
     (case previousBlockHash b of None \<Rightarrow> ''null'' | Some h \<Rightarrow> h)"

definition sampleVerify :: "string \<Rightarrow> string \<Rightarrow> string \<Rightarrow> string + bool" where
  "sampleVerify message address signature =
     (if signature = [] then Inl ''Invalid signature length'' else Inr (signature = ''signed''))"

definition sampleEncode :: "data \<Rightarrow> string" where
  "sampleEncode d =
     (case d of GenesisBlockData \<Rightarrow> ''G'' | StarData address star \<Rightarrow> ''S'' @ address @ '':'' @ star)"

definition sampleDecode :: "string \<Rightarrow> data option" where
  "sampleDecode s =
     (if s = ''G'' then Some GenesisBlockData
      else if take 1 s = ''S'' then
        (case split CHR '':'' (drop 1 s) of
           [address, star] \<Rightarrow> Some (StarData address star)
         | _ \<Rightarrow> None)
      else None)"

definition sampleExt :: ext where
  "sampleExt =
     \<lparr>SHA256 = (\<lambda>s. s), JSON_stringify = sampleStringify, verify = sampleVerify,
      encode = sampleEncode, decode = sampleDecode\<rparr>"

text \<open>Sample engines: after initialization, and after a second genesis block was added.\<close>

definition genesisOnly :: blockchain where
  "genesisOnly = initializeChain sampleExt 1000000 newBlockchain"

definition doubleGenesis :: blockchain where
  "doubleGenesis =
     fst (snd (addBlock sampleExt 2000000 genesisOnly (Block sampleExt GenesisBlockData)))"

text \<open>The same engine after the body of its first block was overwritten.\<close>

definition tampered :: blockchain where
  "tampered =
     doubleGenesis\<lparr>chain := (chain doubleGenesis)[0 := (chain doubleGenesis ! 0)\<lparr>body := ''X''\<rparr>]\<rparr>"

text \<open>The engine after initialization and one accepted star.\<close>

definition oneStar :: blockchain where
  "oneStar =
     fst (snd (addBlock sampleExt 1200000 genesisOnly (Block sampleExt (StarData ''addr1'' ''star1''))))"

text \<open>The same engine with one more entry, whose body is not valid encoded data.\<close>

definition corrupted :: blockchain where
  "corrupted =
     oneStar\<lparr>chain := chain oneStar @ [(last (chain oneStar))\<lparr>body := ''corrupt''\<rparr>]\<rparr>"

text \<open>
  Sample stores. Objects are given by address from a list; every other address holds a
  block that is of no account.
\<close>

definition heapOf :: "block list \<Rightarrow> nat \<Rightarrow> block" where
  "heapOf bs a = (if a < length bs then bs ! a else Block sampleExt GenesisBlockData)"

text \<open>
  The engine as the constructor leaves it, with no block yet.
\<close>

definition emptyObjects :: objectEngine where
  "emptyObjects = \<lparr>heap = heapOf [], chainRefs = [], heightField = - 1\<rparr>"

text \<open>
  The engine after initialization; then after one star was added, or else after a second
  genesis block was added, each by an uninterrupted call on a new object.
\<close>

definition initialized :: objectEngine where
  "initialized =
     snd (addBlockAlone sampleExt 1000000 (construct sampleExt emptyObjects 0 GenesisBlockData) 0)"

definition withStar :: objectEngine where
  "withStar =
     snd (addBlockAlone sampleExt 1200000
            (construct sampleExt initialized 1 (StarData ''addr1'' ''star1'')) 1)"

definition secondGenesis :: objectEngine where
  "secondGenesis =
     snd (addBlockAlone sampleExt 2000000 (construct sampleExt initialized 1 GenesisBlockData) 1)"

text \<open>
  Two calls that overlap, as when \<^verbatim>\<open>submitStar\<close> is called twice before either call goes
  on: the first constructs its block and runs its first phase, the second does the same,
  both validations resolve on the chain as it is then, and then the first call goes on and
  appends, and then the second.
\<close>

definition firstStamped :: objectEngine where
  "firstStamped =
     snd (addBlockStamp sampleExt 1200000
            (construct sampleExt initialized 1 (StarData ''addr1'' ''star1'')) 1)"

definition bothStamped :: objectEngine where
  "bothStamped =
     snd (addBlockStamp sampleExt 1200000
            (construct sampleExt firstStamped 2 (StarData ''addr2'' ''star2'')) 2)"

definition firstAppended :: objectEngine where
  "firstAppended =
     snd (addBlockCommit bothStamped 1 (validateChain sampleExt (snapshot bothStamped)))"

definition overlapped :: objectEngine where
  "overlapped =
     snd (addBlockCommit firstAppended 2 (validateChain sampleExt (snapshot bothStamped)))"



section \<open>Strings and numbers\<close>

lemma toString_ne: "toString n \<noteq> []"
  by (subst toString.simps) simp

lemma toString_ge10: "10 \<le> n \<Longrightarrow> toString n = toString (n div 10) @ [digitChar (n mod 10)]"
  by (subst toString.simps) simp

lemma toString_lt10: "n < 10 \<Longrightarrow> toString n = [digitChar n]"
  by (subst toString.simps) simp

lemma digit_cases: "d < 10 \<Longrightarrow> d \<in> {0, 1, 2, 3, 4, 5, 6, 7, 8, 9::nat}"
  by auto

lemma of_char_digit: "d < 10 \<Longrightarrow> (of_char (digitChar d) :: nat) = 48 + d"
  using digit_cases [of d] by (auto simp add: digitChar_def)

lemma digitVal_digit: "d < 10 \<Longrightarrow> digitVal (digitChar d) = Some d"
  unfolding digitVal_def Let_def by (simp add: of_char_digit)

lemma isDecimalDigit_digitChar: "d < 10 \<Longrightarrow> isDecimalDigit (digitChar d)"
  unfolding isDecimalDigit_def by (simp add: of_char_digit)

lemma toString_digits: "\<forall>c \<in> set (toString n). isDecimalDigit c"
proof (induction n rule: toString.induct)
  case (1 n)
  show ?case
  proof (cases "n < 10")
    case True
    then show ?thesis by (simp add: toString_lt10 isDecimalDigit_digitChar)
  next
    case False
    then have "10 \<le> n" by simp
    with 1 False show ?thesis
      by (simp add: toString_ge10 isDecimalDigit_digitChar)
  qed
qed

lemma isDecimalDigit_radix: "isDecimalDigit c \<Longrightarrow> isRadixDigit 10 c"
  unfolding isDecimalDigit_def isRadixDigit_def digitVal_def Let_def by auto

lemma isDecimalDigit_not_ws: "isDecimalDigit c \<Longrightarrow> \<not> isWhiteSpace c"
  unfolding isDecimalDigit_def isWhiteSpace_def by auto

lemma isDecimalDigit_not_sign:
  "isDecimalDigit c \<Longrightarrow>
     c \<noteq> CHR ''-'' \<and> c \<noteq> CHR ''+'' \<and> c \<noteq> CHR ''x'' \<and> c \<noteq> CHR ''X'' \<and> c \<noteq> CHR '':''"
  unfolding isDecimalDigit_def by auto

lemma digitsValue_snoc:
  "digitsValue R (Z @ [c]) =
     digitsValue R Z * R + (case digitVal c of None \<Rightarrow> 0 | Some d \<Rightarrow> d)"
  unfolding digitsValue_def by simp

lemma digitsValue_toString: "digitsValue 10 (toString n) = n"
proof (induction n rule: toString.induct)
  case (1 n)
  show ?case
  proof (cases "n < 10")
    case True
    then show ?thesis
      by (simp add: toString_lt10 digitsValue_def digitVal_digit)
  next
    case False
    then have ge: "10 \<le> n" by simp
    from 1 False have "digitsValue 10 (toString (n div 10)) = n div 10" by simp
    with ge show ?thesis
      by (simp add: toString_ge10 digitsValue_snoc digitVal_digit)
  qed
qed

text \<open>A non-empty string of decimal digits parses to the number it writes.\<close>

lemma parseInt_digits:
  assumes ne: "Z \<noteq> []" and dig: "\<forall>c \<in> set Z. isDecimalDigit c"
  shows "parseInt Z = Some (int (digitsValue 10 Z))"
proof -
  obtain c cs where Z: "Z = c # cs" using ne by (cases Z) auto
  have c: "isDecimalDigit c" using dig Z by simp
  have ws: "dropWhile isWhiteSpace Z = Z"
    using Z isDecimalDigit_not_ws [OF c] by simp
  have sgn: "take 1 Z \<noteq> ''-''" "take 1 Z \<noteq> ''+''"
    using Z isDecimalDigit_not_sign [OF c] by simp_all
  have second: "cs = [] \<or> (\<exists>d ds. cs = d # ds \<and> d \<noteq> CHR ''x'' \<and> d \<noteq> CHR ''X'')"
  proof (cases cs)
    case Nil
    then show ?thesis by simp
  next
    case (Cons d ds)
    then have "isDecimalDigit d" using dig Z by simp
    then show ?thesis using Cons isDecimalDigit_not_sign [of d] by simp
  qed
  have hex: "take 2 Z \<noteq> ''0x''" "take 2 Z \<noteq> ''0X''"
    using second Z by auto
  have tw: "takeWhile (isRadixDigit 10) Z = Z"
    using dig isDecimalDigit_radix by (simp add: takeWhile_eq_all_conv)
  show ?thesis
    using sgn hex ne by (simp add: parseInt_def Let_def ws tw)
qed

lemma parseInt_toString: "parseInt (toString n) = Some (int n)"
  using parseInt_digits [OF toString_ne toString_digits, of n]
  by (simp add: digitsValue_toString)

lemma slice_toString:
  assumes n: "1000 \<le> n"
  shows "slice_0_neg3 (toString n) = toString (n div 1000)"
proof -
  have a: "toString n = toString (n div 10) @ [digitChar (n mod 10)]"
    using n by (simp add: toString_ge10)
  have b: "toString (n div 10) = toString (n div 10 div 10) @ [digitChar (n div 10 mod 10)]"
    using n by (simp add: toString_ge10)
  have c: "toString (n div 10 div 10) =
      toString (n div 10 div 10 div 10) @ [digitChar (n div 10 div 10 mod 10)]"
    using n by (simp add: toString_ge10)
  have d: "n div 10 div 10 div 10 = n div 1000"
    by (simp add: div_mult2_eq [symmetric])
  have "toString n = toString (n div 1000) @
      [digitChar (n div 10 div 10 mod 10), digitChar (n div 10 mod 10), digitChar (n mod 10)]"
    using a b c d by simp
  then show ?thesis
    unfolding slice_0_neg3_def by simp
qed

text \<open>From one second after the epoch on, the sliced clock string is the clock in seconds.\<close>

lemma timeString_seconds: "1000 \<le> now \<Longrightarrow> timeString now = toString (now div 1000)"
  by (simp add: timeString_def slice_toString)

lemma parseInt_timeString:
  "1000 \<le> now \<Longrightarrow> parseInt (timeString now) = Some (int (now div 1000))"
  by (simp add: timeString_seconds parseInt_toString)

lemma split_prefix: "sep \<notin> set a \<Longrightarrow> split sep (a @ sep # rest) = a # split sep rest"
  by (induction a) auto

text \<open>The second component of a challenge whose address holds no colon is its time.\<close>

lemma index_1_challenge:
  assumes "CHR '':'' \<notin> set address"
  shows "index (split CHR '':'' (address @ '':'' @ toString t @ '':starRegistry'')) 1
    = Obj (toString t)"
proof -
  have "CHR '':'' \<notin> set (toString t)"
    using toString_digits [of t] isDecimalDigit_not_sign by blast
  then have "split CHR '':'' (toString t @ CHR '':'' # ''starRegistry'')
      = toString t # split CHR '':'' ''starRegistry''"
    by (rule split_prefix)
  moreover have "split CHR '':'' (address @ CHR '':'' # (toString t @ '':starRegistry''))
      = address # split CHR '':'' (toString t @ '':starRegistry'')"
    using assms by (rule split_prefix)
  ultimately show ?thesis by (simp add: index_def)
qed

section \<open>Chain validation\<close>

lemma validateStep_flagged:
  "validateStep ext c errorLog i = (if flagged ext c i then errorLog @ [i] else errorLog)"
  by (simp add: validateStep_def flagged_def Let_def)

lemma foldl_validateStep:
  "foldl (validateStep ext c) errorLog [0 ..< n] = errorLog @ filter (flagged ext c) [0 ..< n]"
  by (induction n arbitrary: errorLog) (simp_all add: validateStep_flagged)

text \<open>The error log lists, in order, the indices the loop flags.\<close>

lemma validateChain_filter:
  "validateChain ext self = filter (flagged ext (chain self)) [0 ..< length (chain self)]"
  by (simp add: validateChain_def foldl_validateStep)

lemma validateChain_set:
  "i \<in> set (validateChain ext self) \<longleftrightarrow> i < length (chain self) \<and> flagged ext (chain self) i"
  by (auto simp add: validateChain_filter)

lemma validateChain_empty:
  "validateChain ext self = [] \<longleftrightarrow> (\<forall>i < length (chain self). \<not> flagged ext (chain self) i)"
  by (auto simp add: validateChain_filter filter_empty_conv)

lemma count_list_filter_upt:
  "count_list (filter P [0 ..< n]) i = (if i < n \<and> P i then 1 else 0)"
  by (induction n) auto

section \<open>The sample engines, evaluated\<close>

lemmas sample_defs =
  sampleExt_def sampleStringify_def sampleVerify_def sampleEncode_def sampleDecode_def
  Block_def isGenesisBlock_def validate_def getBData_def
  timeString_def slice_0_neg3_def toString.simps digitChar_def

lemma genesisOnly_eq:
  "genesisOnly =
     \<lparr>chain =
        [\<lparr>hash = Some ''null,0,G,1000,null'', block.height = Some 0, body = ''G'',
          time = Some ''1000'', previousBlockHash = None\<rparr>],
      height = 0\<rparr>"
  by (simp add: genesisOnly_def initializeChain_def newBlockchain_def addBlock_def
      validateChain_def Let_def sample_defs)

lemma doubleGenesis_eq:
  "doubleGenesis =
     \<lparr>chain =
        [\<lparr>hash = Some ''null,0,G,1000,null'', block.height = Some 0, body = ''G'',
          time = Some ''1000'', previousBlockHash = None\<rparr>,
         \<lparr>hash = Some ''null,1,G,2000,null'', block.height = Some 1, body = ''G'',
          time = Some ''2000'', previousBlockHash = None\<rparr>],
      height = 1\<rparr>"
  unfolding doubleGenesis_def genesisOnly_eq
  by (simp add: addBlock_def validateChain_def validateStep_def Let_def sample_defs)

lemma tampered_eq:
  "tampered =
     \<lparr>chain =
        [\<lparr>hash = Some ''null,0,G,1000,null'', block.height = Some 0, body = ''X'',
          time = Some ''1000'', previousBlockHash = None\<rparr>,
         \<lparr>hash = Some ''null,1,G,2000,null'', block.height = Some 1, body = ''G'',
          time = Some ''2000'', previousBlockHash = None\<rparr>],
      height = 1\<rparr>"
  unfolding tampered_def doubleGenesis_eq by simp


section \<open>Claims about \<^verbatim>\<open>validateChain\<close>\<close>

text \<open>
  C7: for every chain and every index \<open>i\<close> that has a successor, if the successor's
  \<^verbatim>\<open>previousBlockHash\<close> differs from the hash of block \<open>i\<close>, then the error list of
  \<^verbatim>\<open>validateChain\<close> contains \<open>i\<close>, also when block \<open>i\<close> passes its own validation. The
  index \<open>i + 1\<close> is in the list only for what the loop finds at \<open>i + 1\<close> itself.
\<close>

theorem validateChain_reports_predecessor:
  assumes "i + 1 < length (chain self)"
    and "previousBlockHash (chain self ! (i + 1)) \<noteq> hash (chain self ! i)"
  shows "i \<in> set (validateChain ext self) \<and>
    (i + 1 \<in> set (validateChain ext self) \<longleftrightarrow> flagged ext (chain self) (i + 1))"
  using assms by (auto simp add: validateChain_set flagged_def)

theorem validateChain_reports_predecessor_witness:
  "0 + 1 < length (chain doubleGenesis) \<and>
   previousBlockHash (chain doubleGenesis ! (0 + 1)) \<noteq> hash (chain doubleGenesis ! 0) \<and>
   validate sampleExt (chain doubleGenesis ! 0) \<and>
   0 \<in> set (validateChain sampleExt doubleGenesis) \<and>
   0 + 1 \<notin> set (validateChain sampleExt doubleGenesis)"
proof -
  have h1: "0 + 1 < length (chain doubleGenesis)"
    by (simp add: doubleGenesis_eq)
  have h2: "previousBlockHash (chain doubleGenesis ! (0 + 1)) \<noteq> hash (chain doubleGenesis ! 0)"
    by (simp add: doubleGenesis_eq)
  have v: "validate sampleExt (chain doubleGenesis ! 0)"
    by (simp add: doubleGenesis_eq sample_defs)
  have f: "\<not> flagged sampleExt (chain doubleGenesis) (0 + 1)"
    by (simp add: doubleGenesis_eq flagged_def sample_defs)
  from validateChain_reports_predecessor [OF h1 h2, of sampleExt] f h1 h2 v
  show ?thesis by blast
qed

text \<open>
  C9: in \<^verbatim>\<open>validateChain\<close> the back-reference of the successor is compared only when
  block \<open>i\<close> passes its own validation, so every index is in the returned error list at
  most once: exactly once when the loop flags it, also when block \<open>i\<close> is both invalid
  and followed by a block whose \<^verbatim>\<open>previousBlockHash\<close> does not match, and not at all
  otherwise.
\<close>

theorem validateChain_index_once:
  "count_list (validateChain ext self) i =
     (if i < length (chain self) \<and> flagged ext (chain self) i then 1 else 0)"
  by (simp only: validateChain_filter count_list_filter_upt)

theorem validateChain_index_once_witness:
  "\<not> validate sampleExt (chain tampered ! 0) \<and>
   hash (chain tampered ! 0) \<noteq> previousBlockHash (chain tampered ! 1) \<and>
   count_list (validateChain sampleExt tampered) 0 = 1"
proof -
  have a: "\<not> validate sampleExt (chain tampered ! 0)"
    by (simp add: tampered_eq sample_defs)
  have b: "hash (chain tampered ! 0) \<noteq> previousBlockHash (chain tampered ! 1)"
    by (simp add: tampered_eq)
  have c: "0 < length (chain tampered) \<and> flagged sampleExt (chain tampered) 0"
    using a by (simp add: tampered_eq flagged_def)
  from validateChain_index_once [of sampleExt tampered 0] c
  have "count_list (validateChain sampleExt tampered) 0 = 1" by simp
  with a b show ?thesis by blast
qed

section \<open>Sealing and appending\<close>

lemma addBlock_cases:
  "addBlock ext now self b =
     (if \<not> isGenesisBlock ext b \<and> chain self = [] then
        (Rejected TypeError, self,
         b\<lparr>time := Some (timeString now), block.height := Some (int (length (chain self)))\<rparr>)
      else if validateChain ext self \<noteq> [] then (Rejected InvalidBlockchain, self, sealed ext now self b)
      else (Resolved (sealed ext now self b),
            self\<lparr>chain := chain self @ [sealed ext now self b],
                 height := int (length (chain self))\<rparr>,
            sealed ext now self b))"
  by (simp add: addBlock_def sealed_def stamped_def Let_def isGenesisBlock_def)

lemma validateChain_Nil: "chain self = [] \<Longrightarrow> validateChain ext self = []"
  by (simp add: validateChain_def)

lemma sealed_fields:
  "time (sealed ext now self b) = Some (timeString now)"
  "block.height (sealed ext now self b) = Some (int (length (chain self)))"
  "body (sealed ext now self b) = body b"
  "\<not> isGenesisBlock ext b \<Longrightarrow> previousBlockHash (sealed ext now self b) = hash (last (chain self))"
  "isGenesisBlock ext b \<Longrightarrow> previousBlockHash (sealed ext now self b) = previousBlockHash b"
  "hash (sealed ext now self b) =
     Some (SHA256 ext (JSON_stringify ext ((sealed ext now self b)\<lparr>hash := hash b\<rparr>)))"
  by (simp_all add: sealed_def stamped_def)

lemma hash_update_same: "hash b = v \<Longrightarrow> b\<lparr>hash := v\<rparr> = b"
  by (cases b) simp

lemma stamped_hash: "hash (stamped ext now self b) = hash b"
  by (simp add: stamped_def)

lemma sealed_validate:
  assumes "hash b = None"
  shows "validate ext (sealed ext now self b)"
proof -
  have "hash (stamped ext now self b) = None"
    using assms by (simp add: stamped_hash)
  then have "(stamped ext now self b)\<lparr>hash := None\<rparr> = stamped ext now self b"
    by (rule hash_update_same)
  then show ?thesis
    by (simp add: validate_def sealed_def)
qed

lemma flagged_append_old:
  assumes "i < length c"
  shows "flagged ext (c @ [b]) i \<longleftrightarrow>
    flagged ext c i \<or> (i + 1 = length c \<and> validate ext (c ! i) \<and> hash (c ! i) \<noteq> previousBlockHash b)"
  using assms by (auto simp add: flagged_def nth_append)

lemma flagged_append_new:
  "flagged ext (c @ [b]) (length c) \<longleftrightarrow> \<not> validate ext b"
  by (simp add: flagged_def)

lemma validateChain_append:
  assumes old: "validateChain ext self = []"
    and v: "validate ext b"
    and link: "chain self \<noteq> [] \<Longrightarrow> hash (last (chain self)) = previousBlockHash b"
  shows "validateChain ext (self\<lparr>chain := chain self @ [b], height := h\<rparr>) = []"
proof -
  have "\<not> flagged ext (chain self @ [b]) i" if i: "i < length (chain self @ [b])" for i
  proof (cases "i < length (chain self)")
    case True
    then have nf: "\<not> flagged ext (chain self) i"
      using old by (simp add: validateChain_empty)
    have "hash (chain self ! i) = previousBlockHash b" if "i + 1 = length (chain self)"
    proof -
      have ne: "chain self \<noteq> []" using True by auto
      have "i = length (chain self) - 1" using that by simp
      then have "last (chain self) = chain self ! i"
        using ne by (simp add: last_conv_nth)
      with link [OF ne] show ?thesis by simp
    qed
    with nf True show ?thesis
      by (auto simp add: flagged_append_old)
  next
    case False
    with i have "i = length (chain self)" by simp
    with v show ?thesis by (simp add: flagged_append_new)
  qed
  then show ?thesis
    by (simp add: validateChain_empty)
qed

lemma addBlock_Resolved:
  assumes "addBlock ext now self b = (Resolved r, self', b')"
  shows "r = sealed ext now self b"
    and "b' = sealed ext now self b"
    and "self' = self\<lparr>chain := chain self @ [sealed ext now self b],
                      height := int (length (chain self))\<rparr>"
    and "validateChain ext self = []"
    and "\<not> isGenesisBlock ext b \<Longrightarrow> chain self \<noteq> []"
  using assms by (auto simp add: addBlock_cases split: if_splits)

lemma isGenesisBlock_Block: "isGenesisBlock ext (Block ext GenesisBlockData)"
  by (simp add: isGenesisBlock_def Block_def)

lemma chain_newBlockchain: "chain newBlockchain = []"
  by (simp add: newBlockchain_def)

lemma newBlockchain_update:
  "newBlockchain\<lparr>chain := c, height := h\<rparr> = \<lparr>chain = c, height = h\<rparr>"
  by (simp add: newBlockchain_def)

lemma initializeChain_new:
  "initializeChain ext now newBlockchain =
     \<lparr>chain = [sealed ext now newBlockchain (Block ext GenesisBlockData)], height = 0\<rparr>"
  by (simp add: initializeChain_def addBlock_cases isGenesisBlock_Block validateChain_Nil
      newBlockchain_def)

lemma Block_hash: "hash (Block ext d) = None"
  by (simp add: Block_def)

lemma addBlock_oneStar:
  "addBlock sampleExt 1200000 genesisOnly (Block sampleExt (StarData ''addr1'' ''star1'')) =
     (Resolved
        \<lparr>hash = Some ''null,1,Saddr1:star1,1200,null,0,G,1000,null'', block.height = Some 1,
         body = ''Saddr1:star1'', time = Some ''1200'',
         previousBlockHash = Some ''null,0,G,1000,null''\<rparr>,
      \<lparr>chain =
        [\<lparr>hash = Some ''null,0,G,1000,null'', block.height = Some 0, body = ''G'',
          time = Some ''1000'', previousBlockHash = None\<rparr>,
         \<lparr>hash = Some ''null,1,Saddr1:star1,1200,null,0,G,1000,null'', block.height = Some 1,
          body = ''Saddr1:star1'', time = Some ''1200'',
          previousBlockHash = Some ''null,0,G,1000,null''\<rparr>],
       height = 1\<rparr>,
      \<lparr>hash = Some ''null,1,Saddr1:star1,1200,null,0,G,1000,null'', block.height = Some 1,
       body = ''Saddr1:star1'', time = Some ''1200'',
       previousBlockHash = Some ''null,0,G,1000,null''\<rparr>)"
  unfolding genesisOnly_eq
  by (simp add: addBlock_def validateChain_def validateStep_def Let_def sample_defs)

lemma oneStar_eq:
  "oneStar =
      \<lparr>chain =
        [\<lparr>hash = Some ''null,0,G,1000,null'', block.height = Some 0, body = ''G'',
          time = Some ''1000'', previousBlockHash = None\<rparr>,
         \<lparr>hash = Some ''null,1,Saddr1:star1,1200,null,0,G,1000,null'', block.height = Some 1,
          body = ''Saddr1:star1'', time = Some ''1200'',
          previousBlockHash = Some ''null,0,G,1000,null''\<rparr>],
       height = 1\<rparr>"
  by (simp add: oneStar_def addBlock_oneStar)

lemma sample_not_genesis:
  "d \<noteq> GenesisBlockData \<Longrightarrow> \<not> isGenesisBlock sampleExt (Block sampleExt d)"
  by (cases d) (simp_all add: isGenesisBlock_def Block_def sampleExt_def sampleEncode_def)

section \<open>The two phases of \<^verbatim>\<open>_addBlock\<close>\<close>

lemma heap_writeObject: "heap (writeObject s a f) = (heap s)(a := f (heap s a))"
  by (simp add: writeObject_def)

lemma chainRefs_writeObject: "chainRefs (writeObject s a f) = chainRefs s"
  by (simp add: writeObject_def)

lemma heightField_writeObject: "heightField (writeObject s a f) = heightField s"
  by (simp add: writeObject_def)

lemma snapshot_writeObject: "a \<notin> set (chainRefs s) \<Longrightarrow> snapshot (writeObject s a f) = snapshot s"
  by (simp add: snapshot_def writeObject_def)

lemma snapshot_construct: "a \<notin> set (chainRefs s) \<Longrightarrow> snapshot (construct ext s a d) = snapshot s"
  by (simp add: snapshot_def construct_def)

lemma chain_snapshot: "chain (snapshot s) = map (heap s) (chainRefs s)"
  by (simp add: snapshot_def)

lemma height_snapshot: "height (snapshot s) = heightField s"
  by (simp add: snapshot_def)

lemma last_snapshot:
  "chainRefs s \<noteq> [] \<Longrightarrow> last (chain (snapshot s)) = heap s (last (chainRefs s))"
  by (simp add: snapshot_def last_map)

lemma last_not_fresh: "a \<notin> set refs \<Longrightarrow> refs \<noteq> [] \<Longrightarrow> last refs \<noteq> a"
  using last_in_set by metis

text \<open>
  On a block that the chain does not hold, the first phase leaves the chain as it was and
  the block sealed.
\<close>

lemma addBlockStamp_fresh:
  assumes "a \<notin> set (chainRefs s)"
  shows "addBlockStamp ext now s a =
     (if \<not> isGenesisBlock ext (heap s a) \<and> chainRefs s = [] then
        (Some TypeError,
         s\<lparr>heap := (heap s)(a := (heap s a)\<lparr>time := Some (timeString now),
            block.height := Some (int (length (chainRefs s)))\<rparr>)\<rparr>)
      else (None, s\<lparr>heap := (heap s)(a := sealed ext now (snapshot s) (heap s a))\<rparr>))"
proof (cases "chainRefs s = []")
  case True
  then show ?thesis
    by (simp add: addBlockStamp_def writeObject_def Let_def isGenesisBlock_def sealed_def
        stamped_def snapshot_def)
next
  case False
  with assms have "last (chainRefs s) \<noteq> a" by (rule last_not_fresh)
  with False show ?thesis
    by (simp add: addBlockStamp_def writeObject_def Let_def isGenesisBlock_def sealed_def
        stamped_def snapshot_def last_map)
qed

lemma addBlockAlone_fresh:
  assumes "a \<notin> set (chainRefs s)"
  shows "addBlockAlone ext now s a =
     (if \<not> isGenesisBlock ext (heap s a) \<and> chainRefs s = [] then
        (Rejected TypeError,
         s\<lparr>heap := (heap s)(a := (heap s a)\<lparr>time := Some (timeString now),
            block.height := Some (int (length (chainRefs s)))\<rparr>)\<rparr>)
      else if validateChain ext (snapshot s) \<noteq> [] then
        (Rejected InvalidBlockchain,
         s\<lparr>heap := (heap s)(a := sealed ext now (snapshot s) (heap s a))\<rparr>)
      else
        (Resolved (sealed ext now (snapshot s) (heap s a)),
         \<lparr>heap = (heap s)(a := sealed ext now (snapshot s) (heap s a)),
          chainRefs = chainRefs s @ [a],
          heightField = int (length (chainRefs s))\<rparr>))"
proof -
  have snap: "snapshot (s\<lparr>heap := (heap s)(a := b)\<rparr>) = snapshot s" for b
    using assms by (simp add: snapshot_def)
  show ?thesis
    by (simp add: addBlockAlone_def addBlockStamp_fresh [OF assms] addBlockCommit_def Let_def snap
        sealed_fields chain_snapshot)
qed

text \<open>
  The call by value is the uninterrupted call on a block that the chain does not hold.
\<close>

lemma addBlock_addBlockAlone:
  assumes "a \<notin> set (chainRefs s)"
  shows "addBlock ext now (snapshot s) (heap s a) =
     (fst (addBlockAlone ext now s a),
      snapshot (snd (addBlockAlone ext now s a)),
      heap (snd (addBlockAlone ext now s a)) a)"
  using assms
  by (simp add: addBlock_cases addBlockAlone_fresh chain_snapshot snapshot_def)

lemma chainRefs_construct: "chainRefs (construct ext s a d) = chainRefs s"
  by (simp add: construct_def)

lemma heap_construct: "heap (construct ext s a d) a = Block ext d"
  by (simp add: construct_def)

lemma addBlockAlone_new:
  assumes "a \<notin> set (chainRefs s)"
  shows "addBlock ext now (snapshot s) (Block ext d) =
     (fst (addBlockAlone ext now (construct ext s a d) a),
      snapshot (snd (addBlockAlone ext now (construct ext s a d) a)),
      heap (snd (addBlockAlone ext now (construct ext s a d) a)) a)"
proof -
  have "a \<notin> set (chainRefs (construct ext s a d))"
    using assms by (simp add: chainRefs_construct)
  from addBlock_addBlockAlone [OF this, of ext now]
  show ?thesis
    using assms by (simp add: snapshot_construct heap_construct)
qed

lemma snapshot_emptyObjects: "snapshot emptyObjects = newBlockchain"
  by (simp add: snapshot_def emptyObjects_def newBlockchain_def)

lemma snapshot_initialized: "snapshot initialized = genesisOnly"
proof -
  have "0 \<notin> set (chainRefs emptyObjects)" by (simp add: emptyObjects_def)
  from addBlockAlone_new [OF this, of sampleExt 1000000 GenesisBlockData]
  show ?thesis
    by (simp add: initialized_def genesisOnly_def initializeChain_def snapshot_emptyObjects
        newBlockchain_def split: prod.splits)
qed

lemmas object_defs =
  addBlockAlone_def addBlockStamp_def addBlockCommit_def writeObject_def construct_def
  snapshot_def heapOf_def validateChain_def validateStep_def Let_def

lemma initialized_eq:
  "initialized =
     \<lparr>heap = (heapOf [])(0 :=
        \<lparr>hash = Some ''null,0,G,1000,null'', block.height = Some 0, body = ''G'',
         time = Some ''1000'', previousBlockHash = None\<rparr>),
      chainRefs = [0], heightField = 0\<rparr>"
  by (simp add: initialized_def emptyObjects_def object_defs sample_defs)

lemma withStar_eq:
  "withStar =
     \<lparr>heap = (heapOf [])(0 :=
        \<lparr>hash = Some ''null,0,G,1000,null'', block.height = Some 0, body = ''G'',
         time = Some ''1000'', previousBlockHash = None\<rparr>,
        1 := \<lparr>hash = Some ''null,1,Saddr1:star1,1200,null,0,G,1000,null'', block.height = Some 1,
         body = ''Saddr1:star1'', time = Some ''1200'',
         previousBlockHash = Some ''null,0,G,1000,null''\<rparr>),
      chainRefs = [0, 1], heightField = 1\<rparr>"
  unfolding withStar_def initialized_eq
  by (simp add: object_defs sample_defs)

lemma secondGenesis_eq:
  "secondGenesis =
     \<lparr>heap = (heapOf [])(0 :=
        \<lparr>hash = Some ''null,0,G,1000,null'', block.height = Some 0, body = ''G'',
         time = Some ''1000'', previousBlockHash = None\<rparr>,
        1 := \<lparr>hash = Some ''null,1,G,2000,null'', block.height = Some 1, body = ''G'',
          time = Some ''2000'', previousBlockHash = None\<rparr>),
      chainRefs = [0, 1], heightField = 1\<rparr>"
  unfolding secondGenesis_def initialized_eq
  by (simp add: object_defs sample_defs)

lemma bothStamped_eq:
  "bothStamped =
     \<lparr>heap = (heapOf [])(0 :=
        \<lparr>hash = Some ''null,0,G,1000,null'', block.height = Some 0, body = ''G'',
         time = Some ''1000'', previousBlockHash = None\<rparr>,
        1 := \<lparr>hash = Some ''null,1,Saddr1:star1,1200,null,0,G,1000,null'', block.height = Some 1,
         body = ''Saddr1:star1'', time = Some ''1200'',
         previousBlockHash = Some ''null,0,G,1000,null''\<rparr>,
        2 := \<lparr>hash = Some ''null,1,Saddr2:star2,1200,null,0,G,1000,null'', block.height = Some 1,
         body = ''Saddr2:star2'', time = Some ''1200'',
         previousBlockHash = Some ''null,0,G,1000,null''\<rparr>),
      chainRefs = [0], heightField = 0\<rparr>"
  unfolding bothStamped_def firstStamped_def initialized_eq
  by (simp add: object_defs sample_defs)

lemma validateChain_bothStamped: "validateChain sampleExt (snapshot bothStamped) = []"
  unfolding bothStamped_eq
  by (simp add: snapshot_def validateChain_def validateStep_def Let_def sample_defs)

lemma commit_first:
  "addBlockCommit bothStamped 1 [] =
     (Resolved \<lparr>hash = Some ''null,1,Saddr1:star1,1200,null,0,G,1000,null'', block.height = Some 1,
         body = ''Saddr1:star1'', time = Some ''1200'',
         previousBlockHash = Some ''null,0,G,1000,null''\<rparr>,
     \<lparr>heap = (heapOf [])(0 :=
        \<lparr>hash = Some ''null,0,G,1000,null'', block.height = Some 0, body = ''G'',
         time = Some ''1000'', previousBlockHash = None\<rparr>,
        1 := \<lparr>hash = Some ''null,1,Saddr1:star1,1200,null,0,G,1000,null'', block.height = Some 1,
         body = ''Saddr1:star1'', time = Some ''1200'',
         previousBlockHash = Some ''null,0,G,1000,null''\<rparr>,
        2 := \<lparr>hash = Some ''null,1,Saddr2:star2,1200,null,0,G,1000,null'', block.height = Some 1,
         body = ''Saddr2:star2'', time = Some ''1200'',
         previousBlockHash = Some ''null,0,G,1000,null''\<rparr>),
      chainRefs = [0, 1], heightField = 1\<rparr>)"
  unfolding bothStamped_eq
  by (simp add: addBlockCommit_def)

lemma firstAppended_eq:
  "firstAppended =
     \<lparr>heap = (heapOf [])(0 :=
        \<lparr>hash = Some ''null,0,G,1000,null'', block.height = Some 0, body = ''G'',
         time = Some ''1000'', previousBlockHash = None\<rparr>,
        1 := \<lparr>hash = Some ''null,1,Saddr1:star1,1200,null,0,G,1000,null'', block.height = Some 1,
         body = ''Saddr1:star1'', time = Some ''1200'',
         previousBlockHash = Some ''null,0,G,1000,null''\<rparr>,
        2 := \<lparr>hash = Some ''null,1,Saddr2:star2,1200,null,0,G,1000,null'', block.height = Some 1,
         body = ''Saddr2:star2'', time = Some ''1200'',
         previousBlockHash = Some ''null,0,G,1000,null''\<rparr>),
      chainRefs = [0, 1], heightField = 1\<rparr>"
  unfolding firstAppended_def validateChain_bothStamped commit_first by simp

lemma commit_second:
  "addBlockCommit firstAppended 2 [] =
     (Resolved \<lparr>hash = Some ''null,1,Saddr2:star2,1200,null,0,G,1000,null'', block.height = Some 1,
         body = ''Saddr2:star2'', time = Some ''1200'',
         previousBlockHash = Some ''null,0,G,1000,null''\<rparr>,
     \<lparr>heap = (heapOf [])(0 :=
        \<lparr>hash = Some ''null,0,G,1000,null'', block.height = Some 0, body = ''G'',
         time = Some ''1000'', previousBlockHash = None\<rparr>,
        1 := \<lparr>hash = Some ''null,1,Saddr1:star1,1200,null,0,G,1000,null'', block.height = Some 1,
         body = ''Saddr1:star1'', time = Some ''1200'',
         previousBlockHash = Some ''null,0,G,1000,null''\<rparr>,
        2 := \<lparr>hash = Some ''null,1,Saddr2:star2,1200,null,0,G,1000,null'', block.height = Some 1,
         body = ''Saddr2:star2'', time = Some ''1200'',
         previousBlockHash = Some ''null,0,G,1000,null''\<rparr>),
      chainRefs = [0, 1, 2], heightField = 1\<rparr>)"
  unfolding firstAppended_eq
  by (simp add: addBlockCommit_def)




lemma construct_append:
  assumes "a \<notin> set (chainRefs s)"
    and "addBlockAlone ext now (construct ext s a d) a = (Resolved b, s')"
  shows "snapshot s' = (snapshot s)\<lparr>chain := chain (snapshot s) @
            [sealed ext now (snapshot s) (Block ext d)],
          height := int (length (chain (snapshot s)))\<rparr>"
    and "validateChain ext (snapshot s) = []"
    and "\<not> isGenesisBlock ext (Block ext d) \<Longrightarrow> chain (snapshot s) \<noteq> []"
proof -
  have r: "addBlock ext now (snapshot s) (Block ext d) = (Resolved b, snapshot s', heap s' a)"
    using addBlockAlone_new [OF assms(1), of ext now d] assms(2) by simp
  show "snapshot s' = (snapshot s)\<lparr>chain := chain (snapshot s) @
            [sealed ext now (snapshot s) (Block ext d)],
          height := int (length (chain (snapshot s)))\<rparr>"
    using addBlock_Resolved(3) [OF r] .
  show "validateChain ext (snapshot s) = []"
    using addBlock_Resolved(4) [OF r] .
  show "\<not> isGenesisBlock ext (Block ext d) \<Longrightarrow> chain (snapshot s) \<noteq> []"
    using addBlock_Resolved(5) [OF r] .
qed

lemma construct_init:
  assumes "chainRefs s = []" and "heightField s = - 1"
  shows "snapshot (snd (addBlockAlone ext now (construct ext s a GenesisBlockData) a)) =
    \<lparr>chain = [sealed ext now newBlockchain (Block ext GenesisBlockData)], height = 0\<rparr>"
proof -
  have f: "a \<notin> set (chainRefs s)" using assms(1) by simp
  have n: "snapshot s = newBlockchain"
    using assms by (simp add: snapshot_def newBlockchain_def)
  have "snapshot (snd (addBlockAlone ext now (construct ext s a GenesisBlockData) a)) =
      fst (snd (addBlock ext now (snapshot s) (Block ext GenesisBlockData)))"
    using addBlockAlone_new [OF f, of ext now GenesisBlockData] by simp
  then show ?thesis
    unfolding n
    by (simp add: addBlock_cases isGenesisBlock_Block validateChain_Nil chain_newBlockchain
        newBlockchain_update)
qed

lemma builtInTurn_heights:
  assumes "builtInTurn ext allowed s"
  shows "(\<forall>i < length (chain (snapshot s)).
      block.height (chain (snapshot s) ! i) = Some (int i)) \<and>
    height (snapshot s) = int (length (chain (snapshot s))) - 1 \<and> chain (snapshot s) \<noteq> []"
  using assms
proof (induction rule: builtInTurn.induct)
  case (init s now a)
  show ?case
    by (simp add: construct_init [OF init] sealed_fields chain_newBlockchain)
next
  case (append s a d now b s')
  note r = construct_append [OF append.hyps(2) append.hyps(4)]
  from append.IH show ?case
    unfolding r(1) by (auto simp add: nth_append sealed_fields)
qed

lemma builtInTurn_valid:
  assumes "builtInTurn ext allowed s"
    and ng: "\<And>d. allowed d \<Longrightarrow> \<not> isGenesisBlock ext (Block ext d)"
  shows "validateChain ext (snapshot s) = []"
  using assms(1)
proof (induction rule: builtInTurn.induct)
  case (init s now a)
  have "validateChain ext newBlockchain = []"
    by (simp add: validateChain_Nil chain_newBlockchain)
  moreover have "validate ext (sealed ext now newBlockchain (Block ext GenesisBlockData))"
    by (rule sealed_validate [OF Block_hash])
  ultimately have "validateChain ext
      (newBlockchain\<lparr>chain := chain newBlockchain @
          [sealed ext now newBlockchain (Block ext GenesisBlockData)], height := 0\<rparr>) = []"
    by (rule validateChain_append) (simp add: chain_newBlockchain)
  then show ?case
    by (simp add: construct_init [OF init] chain_newBlockchain newBlockchain_update)
next
  case (append s a d now b s')
  note r = construct_append [OF append.hyps(2) append.hyps(4)]
  have "previousBlockHash (sealed ext now (snapshot s) (Block ext d))
      = hash (last (chain (snapshot s)))"
    using ng [OF append.hyps(3)] by (simp add: sealed_fields)
  then have "validateChain ext ((snapshot s)\<lparr>chain := chain (snapshot s) @
        [sealed ext now (snapshot s) (Block ext d)],
      height := int (length (chain (snapshot s)))\<rparr>) = []"
    using validateChain_append [OF r(2) sealed_validate [OF Block_hash]] by simp
  then show ?case unfolding r(1) .
qed

lemma builtInTurn_initialized: "builtInTurn sampleExt allowed initialized"
  unfolding initialized_def
  by (rule builtInTurn.init) (simp_all add: emptyObjects_def)

lemma snapshot_withStar: "snapshot withStar = oneStar"
  by (simp add: withStar_eq oneStar_eq snapshot_def)

lemma snapshot_secondGenesis: "snapshot secondGenesis = doubleGenesis"
  by (simp add: secondGenesis_eq doubleGenesis_eq snapshot_def)

lemma addBlockAlone_Resolved_pair:
  "fst (addBlockAlone ext now s a) = Resolved b \<Longrightarrow>
   addBlockAlone ext now s a = (Resolved b, snd (addBlockAlone ext now s a))"
  by (cases "addBlockAlone ext now s a") simp

section \<open>Claims about \<^verbatim>\<open>_addBlock\<close>\<close>







text \<open>
  C6, as amended: after initialization and any number of successful calls of
  \<^verbatim>\<open>_addBlock\<close> that run in turn, each finished before the next starts and each on a newly
  constructed block, every block's height is its index and the engine's height is the
  length of the chain minus one; and when none of the blocks appended after initialization
  is a genesis block (\<^verbatim>\<open>submitStar\<close> builds no other), \<^verbatim>\<open>validateChain\<close> returns the
  empty list.
\<close>

theorem builtInTurn_chain_invariants:
  assumes "builtInTurn ext allowed s"
  shows "(\<forall>i < length (chain (snapshot s)).
      block.height (chain (snapshot s) ! i) = Some (int i)) \<and>
    height (snapshot s) = int (length (chain (snapshot s))) - 1 \<and>
    ((\<forall>d. allowed d \<longrightarrow> \<not> isGenesisBlock ext (Block ext d)) \<longrightarrow>
       validateChain ext (snapshot s) = [])"
  using builtInTurn_heights [OF assms] builtInTurn_valid [OF assms] by blast

theorem builtInTurn_chain_invariants_witness:
  "builtInTurn sampleExt (\<lambda>d. d \<noteq> GenesisBlockData) withStar \<and>
   block.height (chain (snapshot withStar) ! 0) = Some 0 \<and>
   block.height (chain (snapshot withStar) ! 1) = Some 1 \<and>
   height (snapshot withStar) = 1 \<and> length (chain (snapshot withStar)) = 2 \<and>
   validateChain sampleExt (snapshot withStar) = []"
proof -
  have a: "builtInTurn sampleExt (\<lambda>d. d \<noteq> GenesisBlockData) withStar"
  proof (rule builtInTurn.append [OF builtInTurn_initialized])
    show "1 \<notin> set (chainRefs initialized)" by (simp add: initialized_eq)
    show "StarData ''addr1'' ''star1'' \<noteq> GenesisBlockData" by simp
    show "addBlockAlone sampleExt 1200000
        (construct sampleExt initialized 1 (StarData ''addr1'' ''star1'')) 1
      = (Resolved (last (chain oneStar)), withStar)"
      unfolding withStar_def
      by (rule addBlockAlone_Resolved_pair)
        (simp add: initialized_eq oneStar_eq object_defs sample_defs)
  qed
  have len: "length (chain (snapshot withStar)) = 2"
    by (simp add: snapshot_withStar oneStar_eq)
  have ng: "\<forall>d. d \<noteq> GenesisBlockData \<longrightarrow> \<not> isGenesisBlock sampleExt (Block sampleExt d)"
    using sample_not_genesis by blast
  from builtInTurn_chain_invariants [OF a] ng len a show ?thesis
    by (auto simp add: numeral_2_eq_2 less_Suc_eq)
qed

text \<open>
  C6 as stated fails when two successful calls overlap: both run their first phase on the
  chain of one block, so both blocks get height 1 and the hash of the genesis block as
  previous hash; both validations find no error, and both blocks are appended. The
  heights are then 0, 1, 1, the engine's height is 1 with three blocks in the chain, and
  \<^verbatim>\<open>validateChain\<close> reports index 1. It also fails, for calls in turn, when a second
  block holding the genesis data is appended: it gets no previous hash, and
  \<^verbatim>\<open>validateChain\<close> reports index 0.
\<close>

theorem overlapping_calls_counterexample:
  "fst (addBlockStamp sampleExt 1200000
         (construct sampleExt initialized 1 (StarData ''addr1'' ''star1'')) 1) = None \<and>
   fst (addBlockStamp sampleExt 1200000
         (construct sampleExt firstStamped 2 (StarData ''addr2'' ''star2'')) 2) = None \<and>
   validateChain sampleExt (snapshot bothStamped) = [] \<and>
   fst (addBlockCommit bothStamped 1 []) = Resolved (heap bothStamped 1) \<and>
   fst (addBlockCommit firstAppended 2 []) = Resolved (heap firstAppended 2) \<and>
   map block.height (chain (snapshot overlapped)) = [Some 0, Some 1, Some 1] \<and>
   height (snapshot overlapped) = 1 \<and>
   length (chain (snapshot overlapped)) = 3 \<and>
   validateChain sampleExt (snapshot overlapped) = [1] \<and>
   builtInTurn sampleExt (\<lambda>d. True) secondGenesis \<and>
   validateChain sampleExt (snapshot secondGenesis) = [0]"
proof -
  have s1: "fst (addBlockStamp sampleExt 1200000
         (construct sampleExt initialized 1 (StarData ''addr1'' ''star1'')) 1) = None"
    unfolding initialized_eq by (simp add: object_defs sample_defs)
  have s2: "fst (addBlockStamp sampleExt 1200000
         (construct sampleExt firstStamped 2 (StarData ''addr2'' ''star2'')) 2) = None"
    unfolding firstStamped_def initialized_eq by (simp add: object_defs sample_defs)
  have r1: "fst (addBlockCommit bothStamped 1 []) = Resolved (heap bothStamped 1)"
    unfolding commit_first by (simp add: bothStamped_eq)
  have r2: "fst (addBlockCommit firstAppended 2 []) = Resolved (heap firstAppended 2)"
    unfolding commit_second by (simp add: firstAppended_eq)
  have snap: "snapshot overlapped =
     \<lparr>chain =
        [\<lparr>hash = Some ''null,0,G,1000,null'', block.height = Some 0, body = ''G'',
          time = Some ''1000'', previousBlockHash = None\<rparr>,
         \<lparr>hash = Some ''null,1,Saddr1:star1,1200,null,0,G,1000,null'', block.height = Some 1,
          body = ''Saddr1:star1'', time = Some ''1200'',
          previousBlockHash = Some ''null,0,G,1000,null''\<rparr>,
         \<lparr>hash = Some ''null,1,Saddr2:star2,1200,null,0,G,1000,null'', block.height = Some 1,
          body = ''Saddr2:star2'', time = Some ''1200'',
          previousBlockHash = Some ''null,0,G,1000,null''\<rparr>],
       height = 1\<rparr>"
    unfolding overlapped_def validateChain_bothStamped commit_second by (simp add: snapshot_def)
  have v: "validateChain sampleExt (snapshot overlapped) = [1]"
    unfolding snap by (simp add: validateChain_def validateStep_def Let_def sample_defs)
  have b: "builtInTurn sampleExt (\<lambda>d. True) secondGenesis"
  proof (rule builtInTurn.append [OF builtInTurn_initialized])
    show "1 \<notin> set (chainRefs initialized)" by (simp add: initialized_eq)
    show True by simp
    show "addBlockAlone sampleExt 2000000 (construct sampleExt initialized 1 GenesisBlockData) 1
      = (Resolved (last (chain doubleGenesis)), secondGenesis)"
      unfolding secondGenesis_def
      by (rule addBlockAlone_Resolved_pair)
        (simp add: initialized_eq doubleGenesis_eq object_defs sample_defs)
  qed
  have g: "validateChain sampleExt (snapshot secondGenesis) = [0]"
    unfolding snapshot_secondGenesis doubleGenesis_eq
    by (simp add: validateChain_def validateStep_def Let_def sample_defs)
  show ?thesis
    using s1 s2 r1 r2 v b g validateChain_bothStamped by (simp add: snap)
qed

section \<open>The time window of \<^verbatim>\<open>submitStar\<close>\<close>

lemma submitStar_expired:
  "greater_number (elapsedTime now message) MesgTimeLimitSec \<Longrightarrow>
   submitStar ext now now' self address message signature star = (Rejected ExceedTimeLimit, self)"
  by (simp add: submitStar_def elapsedTime_def Let_def)

lemma submitStar_not_expired:
  "\<not> greater_number (elapsedTime now message) MesgTimeLimitSec \<Longrightarrow>
   submitStar ext now now' self address message signature star =
     (case verify ext message address signature of
        Inl e \<Rightarrow> (Rejected (VerifierError e), self)
      | Inr isVerified \<Rightarrow>
          if \<not> isVerified then (Rejected MessageVerificationFailed, self)
          else (fst (addBlock ext now' self (Block ext (StarData address star))),
                fst (snd (addBlock ext now' self (Block ext (StarData address star))))))"
  by (simp add: submitStar_def elapsedTime_def Let_def split: sum.splits prod.splits)

lemma addBlock_not_ExceedTimeLimit:
  "fst (addBlock ext now self b) \<noteq> Rejected ExceedTimeLimit"
  by (simp add: addBlock_cases)

lemma submitStar_ExceedTimeLimit_iff:
  "fst (submitStar ext now now' self address message signature star) = Rejected ExceedTimeLimit
     \<longleftrightarrow> greater_number (elapsedTime now message) MesgTimeLimitSec"
proof (cases "greater_number (elapsedTime now message) MesgTimeLimitSec")
  case True
  then show ?thesis by (simp add: submitStar_expired)
next
  case False
  then show ?thesis
    by (simp add: submitStar_not_expired addBlock_not_ExceedTimeLimit split: sum.splits)
qed


lemma challenge_message:
  assumes "1000 \<le> issued"
  shows "requestMessageOwnershipVerification issued a
    = Resolved (a @ '':'' @ toString (issued div 1000) @ '':starRegistry'')"
  using assms by (simp add: requestMessageOwnershipVerification_def timeString_seconds)

lemma elapsedTime_challenge:
  assumes "CHR '':'' \<notin> set a" and "1000 \<le> issued" and "1000 \<le> now"
    and "requestMessageOwnershipVerification issued a = Resolved message"
  shows "elapsedTime now message = Some (int (now div 1000) - int (issued div 1000))"
proof -
  have m: "message = a @ '':'' @ toString (issued div 1000) @ '':starRegistry''"
    using assms(4) challenge_message [OF assms(2), of a] by simp
  have "parseIntArg (index (split CHR '':'' message) 1) = Some (int (issued div 1000))"
    unfolding m index_1_challenge [OF assms(1)]
    by (simp add: parseIntArg_def parseInt_toString)
  then show ?thesis
    using assms(3) by (simp add: elapsedTime_def parseInt_timeString minus_number_def)
qed

lemmas parse_defs =
  parseIntArg_def parseInt_def index_def isWhiteSpace_def isRadixDigit_def digitVal_def
  digitsValue_def minus_number_def greater_number_def MesgTimeLimitSec_def Let_def

lemma parse_1000: "parseIntArg (index (split CHR '':'' ''addr1:1000:starRegistry'') 1) = Some 1000"
  by (simp add: parse_defs)


lemma challenge_1000:
  "requestMessageOwnershipVerification 1000000 ''addr1'' = Resolved ''addr1:1000:starRegistry''"
  by (simp add: requestMessageOwnershipVerification_def sample_defs)

lemma challenge_2000:
  "requestMessageOwnershipVerification 2000000 ''addr1'' = Resolved ''addr1:2000:starRegistry''"
  by (simp add: requestMessageOwnershipVerification_def sample_defs)

lemma elapsed_1200: "elapsedTime 1200000 ''addr1:1000:starRegistry'' = Some 200"
  unfolding elapsedTime_def parse_1000
  by (simp add: parseInt_timeString minus_number_def)

lemma verify_sampleExt: "verify sampleExt = sampleVerify"
  by (simp add: sampleExt_def)

lemma submit_1200:
  "submitStar sampleExt 1200000 1200000 genesisOnly ''addr1'' ''addr1:1000:starRegistry''
      ''signed'' ''star1'' = (Resolved (last (chain oneStar)), oneStar)"
proof -
  have "\<not> greater_number (elapsedTime 1200000 ''addr1:1000:starRegistry'') MesgTimeLimitSec"
    by (simp add: elapsed_1200 greater_number_def MesgTimeLimitSec_def)
  then show ?thesis
    by (simp add: submitStar_not_expired addBlock_oneStar oneStar_eq verify_sampleExt sampleVerify_def)
qed


lemma decode_sampleExt: "decode sampleExt = sampleDecode"
  by (simp add: sampleExt_def)

lemma sampleDecode_G: "sampleDecode ''G'' = Some GenesisBlockData"
  by (simp add: sampleDecode_def)

lemma sampleDecode_star: "sampleDecode ''Saddr1:star1'' = Some (StarData ''addr1'' ''star1'')"
  by (simp add: sampleDecode_def)

lemma sampleDecode_corrupt: "sampleDecode ''corrupt'' = None"
  by (simp add: sampleDecode_def)

section \<open>Claims about \<^verbatim>\<open>submitStar\<close>\<close>

text \<open>
  C4: for a call of \<^verbatim>\<open>submitStar\<close> with a well-formed message, one that
  \<^verbatim>\<open>requestMessageOwnershipVerification\<close> issued for an address without a colon, let
  elapsed be the clock's seconds at the call minus the seconds in the message. The call
  rejects with the time-limit error if and only if elapsed is greater than 300. So an
  elapsed time of 200 passes, 400 is rejected, and a negative one (a message dated in the
  future) passes: there is no lower bound. Clock readings are at least one second after
  the epoch.
\<close>

theorem submitStar_time_window:
  assumes "CHR '':'' \<notin> set a" and "1000 \<le> issued" and "1000 \<le> now"
    and "requestMessageOwnershipVerification issued a = Resolved message"
  shows "fst (submitStar ext now now' self address message signature star) = Rejected ExceedTimeLimit
    \<longleftrightarrow> int (now div 1000) - int (issued div 1000) > 300"
  unfolding submitStar_ExceedTimeLimit_iff elapsedTime_challenge [OF assms]
  by (simp add: greater_number_def MesgTimeLimitSec_def)

theorem submitStar_time_window_witness:
  "CHR '':'' \<notin> set ''addr1'' \<and>
   requestMessageOwnershipVerification 1000000 ''addr1'' = Resolved ''addr1:1000:starRegistry'' \<and>
   fst (submitStar sampleExt 1200000 1200000 genesisOnly ''addr1'' ''addr1:1000:starRegistry''
          ''signed'' ''star1'') \<noteq> Rejected ExceedTimeLimit \<and>
   submitStar sampleExt 1200000 1200000 genesisOnly ''addr1'' ''addr1:1000:starRegistry''
          ''signed'' ''star1'' = (Resolved (last (chain oneStar)), oneStar) \<and>
   fst (submitStar sampleExt 1400000 1400000 genesisOnly ''addr1'' ''addr1:1000:starRegistry''
          ''signed'' ''star1'') = Rejected ExceedTimeLimit \<and>
   requestMessageOwnershipVerification 2000000 ''addr1'' = Resolved ''addr1:2000:starRegistry'' \<and>
   fst (submitStar sampleExt 1200000 1200000 genesisOnly ''addr1'' ''addr1:2000:starRegistry''
          ''signed'' ''star1'') \<noteq> Rejected ExceedTimeLimit"
proof -
  have c: "CHR '':'' \<notin> set ''addr1''" by simp
  have i1: "(1000::nat) \<le> 1000000" and i2: "(1000::nat) \<le> 2000000"
    and n1: "(1000::nat) \<le> 1200000" and n2: "(1000::nat) \<le> 1400000"
    by simp_all
  note w = submitStar_time_window [where ext = sampleExt and self = genesisOnly
      and address = "''addr1''" and signature = "''signed''" and star = "''star1''"]
  have "fst (submitStar sampleExt 1200000 1200000 genesisOnly ''addr1'' ''addr1:1000:starRegistry''
          ''signed'' ''star1'') \<noteq> Rejected ExceedTimeLimit"
    using w [OF c i1 n1 challenge_1000, of 1200000] by simp
  moreover have "fst (submitStar sampleExt 1400000 1400000 genesisOnly ''addr1''
      ''addr1:1000:starRegistry'' ''signed'' ''star1'') = Rejected ExceedTimeLimit"
    using w [OF c i1 n2 challenge_1000, of 1400000] by simp
  moreover have "fst (submitStar sampleExt 1200000 1200000 genesisOnly ''addr1''
      ''addr1:2000:starRegistry'' ''signed'' ''star1'') \<noteq> Rejected ExceedTimeLimit"
    using w [OF c i2 n1 challenge_2000, of 1200000] by simp
  ultimately show ?thesis
    using c challenge_1000 challenge_2000 submit_1200 by blast
qed




text \<open>
  C8, as amended: for every call of \<^verbatim>\<open>submitStar\<close> that reaches the verifier (the time
  limit does not reject it), when the verifier returns false the call rejects with the
  error \<^verbatim>\<open>Message verification failed\<close>, and when the verifier throws the call rejects
  with what the verifier threw; either way it is a rejection and the engine, its chain and
  its height, is what it was before the call.
\<close>

theorem submitStar_verification_failure:
  assumes "\<not> greater_number (elapsedTime now message) MesgTimeLimitSec"
  shows "(verify ext message address signature = Inr False \<longrightarrow>
      submitStar ext now now' self address message signature star
        = (Rejected MessageVerificationFailed, self)) \<and>
    (\<forall>e. verify ext message address signature = Inl e \<longrightarrow>
      submitStar ext now now' self address message signature star
        = (Rejected (VerifierError e), self))"
  using assms by (simp add: submitStar_not_expired)

theorem submitStar_verification_failure_witness:
  "\<not> greater_number (elapsedTime 1200000 ''addr1:1000:starRegistry'') MesgTimeLimitSec \<and>
   verify sampleExt ''addr1:1000:starRegistry'' ''addr1'' ''forged'' = Inr False \<and>
   submitStar sampleExt 1200000 1200000 genesisOnly ''addr1'' ''addr1:1000:starRegistry''
      ''forged'' ''star1'' = (Rejected MessageVerificationFailed, genesisOnly) \<and>
   verify sampleExt ''addr1:1000:starRegistry'' ''addr1'' [] = Inl ''Invalid signature length'' \<and>
   submitStar sampleExt 1200000 1200000 genesisOnly ''addr1'' ''addr1:1000:starRegistry''
      [] ''star1'' = (Rejected (VerifierError ''Invalid signature length''), genesisOnly) \<and>
   height genesisOnly = 0 \<and> length (chain genesisOnly) = 1"
proof -
  have h: "\<not> greater_number (elapsedTime 1200000 ''addr1:1000:starRegistry'') MesgTimeLimitSec"
    by (simp add: elapsed_1200 greater_number_def MesgTimeLimitSec_def)
  have v: "verify sampleExt ''addr1:1000:starRegistry'' ''addr1'' ''forged'' = Inr False"
    by (simp add: verify_sampleExt sampleVerify_def)
  have t: "verify sampleExt ''addr1:1000:starRegistry'' ''addr1'' [] = Inl ''Invalid signature length''"
    by (simp add: verify_sampleExt sampleVerify_def)
  from submitStar_verification_failure [OF h, of sampleExt "''addr1''" "''forged''"]
    submitStar_verification_failure [OF h, of sampleExt "''addr1''" "[]"] h v t
  show ?thesis by (simp add: genesisOnly_eq)
qed

text \<open>
  C8 as stated fails where the verifier throws: the rejection then carries the verifier's
  own error, not the error \<^verbatim>\<open>Message verification failed\<close>.
\<close>

theorem verifier_throws_counterexample:
  "verify sampleExt ''addr1:1000:starRegistry'' ''addr1'' [] = Inl ''Invalid signature length'' \<and>
   submitStar sampleExt 1200000 1200000 genesisOnly ''addr1'' ''addr1:1000:starRegistry''
      [] ''star1'' = (Rejected (VerifierError ''Invalid signature length''), genesisOnly) \<and>
   fst (submitStar sampleExt 1200000 1200000 genesisOnly ''addr1'' ''addr1:1000:starRegistry''
      [] ''star1'') \<noteq> Rejected MessageVerificationFailed"
proof -
  have h: "\<not> greater_number (elapsedTime 1200000 ''addr1:1000:starRegistry'') MesgTimeLimitSec"
    by (simp add: elapsed_1200 greater_number_def MesgTimeLimitSec_def)
  have v: "verify sampleExt ''addr1:1000:starRegistry'' ''addr1'' [] = Inl ''Invalid signature length''"
    by (simp add: verify_sampleExt sampleVerify_def)
  show ?thesis
    using v by (simp add: submitStar_not_expired [OF h])
qed

section \<open>Lookups\<close>

lemma find_js_none: "\<forall>x \<in> set xs. \<not> P x \<Longrightarrow> find_js P xs = Undefined"
  by (induction xs) auto

lemma find_js_not_Null: "find_js P xs \<noteq> Null"
  by (induction xs) auto

lemma getBlockByHash_resolves: "getBlockByHash self h = Resolved (find_js (\<lambda>b. hash b = Some h) (chain self))"
  by (simp add: getBlockByHash_def Let_def find_js_not_Null)

text \<open>
  C2: \<^verbatim>\<open>getBlockByHash\<close> is to reject when no block of the chain has the hash. It does
  not: \<^verbatim>\<open>find\<close> returns \<^verbatim>\<open>undefined\<close>, which the test against \<^verbatim>\<open>null\<close> lets through,
  and the promise resolves with \<^verbatim>\<open>undefined\<close>. Here on the chain that holds the genesis
  block only.
\<close>

theorem getBlockByHash_missing_resolves:
  "find_js (\<lambda>b. hash b = Some ''nope'') (chain genesisOnly) = Undefined \<and>
   getBlockByHash genesisOnly ''nope'' = Resolved Undefined"
  by (simp add: getBlockByHash_def genesisOnly_eq)

lemma promise_all_decoded:
  assumes "\<forall>b \<in> set c. decode ext (body b) \<noteq> None"
  shows "promise_all (map (\<lambda>b. then_promise (getBData ext b) f) c)
    = Resolved (map (\<lambda>b. f (the (decode ext (body b)))) c)"
  using assms
  by (induction c) (auto simp add: getBData_def then_promise_def)

lemma filter_owned:
  "filter (\<lambda>v. v \<noteq> Null \<and> v \<noteq> Undefined)
      (map (\<lambda>d. if owner d = Obj address then Obj d else Null) ds)
    = map Obj (filter (\<lambda>d. owner d = Obj address) ds)"
  by (induction ds) auto

text \<open>
  C3, as amended: for every chain in which the body of every block decodes, and every
  address, \<^verbatim>\<open>getStarsByWalletAddress\<close> resolves with exactly the decoded data whose owner
  is the address, in the order of the chain; the genesis data, which has no owner, is not
  among them.
\<close>

theorem getStarsByWalletAddress_all_decoded:
  assumes "\<forall>b \<in> set (chain self). decode ext (body b) \<noteq> None"
  shows "getStarsByWalletAddress ext self address
      = Resolved (map Obj (filter (\<lambda>d. owner d = Obj address)
          (map (\<lambda>b. the (decode ext (body b))) (chain self)))) \<and>
    Obj GenesisBlockData \<notin> set (map Obj (filter (\<lambda>d. owner d = Obj address)
          (map (\<lambda>b. the (decode ext (body b))) (chain self))))"
proof -
  have "filter (\<lambda>v. v \<noteq> Null \<and> v \<noteq> Undefined)
      (map (\<lambda>b. if owner (the (decode ext (body b))) = Obj address
                 then Obj (the (decode ext (body b))) else Null) (chain self))
    = map Obj (filter (\<lambda>d. owner d = Obj address)
        (map (\<lambda>b. the (decode ext (body b))) (chain self)))"
    using filter_owned [of address "map (\<lambda>b. the (decode ext (body b))) (chain self)"]
    by (simp add: comp_def)
  then have "getStarsByWalletAddress ext self address
      = Resolved (map Obj (filter (\<lambda>d. owner d = Obj address)
          (map (\<lambda>b. the (decode ext (body b))) (chain self))))"
    by (simp add: getStarsByWalletAddress_def Let_def promise_all_decoded [OF assms])
  moreover have "Obj GenesisBlockData \<notin> set (map Obj (filter (\<lambda>d. owner d = Obj address)
          (map (\<lambda>b. the (decode ext (body b))) (chain self))))"
    by auto
  ultimately show ?thesis by blast
qed

theorem getStarsByWalletAddress_all_decoded_witness:
  "list_all (\<lambda>b. decode sampleExt (body b) \<noteq> None) (chain oneStar) \<and>
   getStarsByWalletAddress sampleExt oneStar ''addr1'' = Resolved [Obj (StarData ''addr1'' ''star1'')]"
proof -
  have h: "\<forall>b \<in> set (chain oneStar). decode sampleExt (body b) \<noteq> None"
    by (simp add: oneStar_eq decode_sampleExt sampleDecode_G sampleDecode_star)
  from getStarsByWalletAddress_all_decoded [OF h, of "''addr1''"] h
  show ?thesis
    by (simp add: oneStar_eq decode_sampleExt sampleDecode_G sampleDecode_star list_all_iff)
qed

text \<open>
  C3 as stated fails: with one entry whose body does not decode, the call does not resolve
  with the stars of the other entries; the promise is never settled.
\<close>

theorem corrupted_entry_counterexample:
  "decode sampleExt (body (chain corrupted ! 2)) = None \<and>
   decode sampleExt (body (chain corrupted ! 1)) = Some (StarData ''addr1'' ''star1'') \<and>
   getStarsByWalletAddress sampleExt corrupted ''addr1'' = Pending"
  by (simp add: corrupted_def oneStar_eq getStarsByWalletAddress_def getBData_def then_promise_def
      decode_sampleExt sampleDecode_G sampleDecode_star sampleDecode_corrupt Let_def)

end
